theory Spec2Isabelle
  imports Main
begin

section \<open>Ticket authentication of a WAMP router session\<close>

text \<open>
  A shallow embedding of \<^verbatim>\<open>examples/twisted/wamp/authentication/ticket/server.py\<close>:
  the fake user database \<^verbatim>\<open>UserDb\<close>, the value object \<^verbatim>\<open>PendingAuth\<close> and the two
  callbacks \<^verbatim>\<open>onHello\<close> and \<^verbatim>\<open>onAuthenticate\<close> of \<^verbatim>\<open>MyRouterSession\<close>.
  The \<^verbatim>\<open>print\<close> calls that open both callbacks only write to standard output and are
  left out.
\<close>

subsection \<open>Python values\<close>

text \<open>
  The values that flow through the handshake (authid, role, ticket, signature) are
  Python strings or \<^verbatim>\<open>None\<close>: \<^verbatim>\<open>UserDb.get\<close> answers \<^verbatim>\<open>(None, None)\<close> for a missing
  key and \<^verbatim>\<open>HelloDetails.authid\<close> is \<^verbatim>\<open>None\<close> when the client names no identity.
\<close>

type_synonym pystr = "string option"

text \<open>Python truthiness of such a value: \<^verbatim>\<open>None\<close> and the empty string are false.\<close>

definition truthy :: "pystr \<Rightarrow> bool" where
  "truthy v = (case v of None \<Rightarrow> False | Some s \<Rightarrow> s \<noteq> [])"

text \<open>Truthiness of a value that is \<^verbatim>\<open>None\<close> or a list: the empty list is false.\<close>

definition truthy_list :: "'a list option \<Rightarrow> bool" where
  "truthy_list v = (case v of None \<Rightarrow> False | Some xs \<Rightarrow> xs \<noteq> [])"

text \<open>
  The exceptions the modelled code can raise: a subscript on a missing dictionary key
  and a read of an instance attribute that was never assigned.
\<close>

datatype py_error = KeyError | AttributeError

text \<open>
  A fired Twisted \<^verbatim>\<open>Deferred\<close>: it holds a result (\<open>Inr\<close>) or a failure (\<open>Inl\<close>).
  A function that may raise returns the same type, \<open>Inl\<close> being the exception.
\<close>

type_synonym 'a deferred = "py_error + 'a"

definition defer_succeed :: "'a \<Rightarrow> 'a deferred" where
  "defer_succeed v = Inr v"

subsection \<open>The user database\<close>

record UserDb =
  tickets :: "pystr \<rightharpoonup> pystr \<times> pystr"

definition UserDb_init :: UserDb where
  "UserDb_init = \<lparr>tickets = Map.empty\<rparr>"

text \<open>
  \<^verbatim>\<open>add\<close> stores the pair \<^verbatim>\<open>(ticket, authrole)\<close> under \<^verbatim>\<open>authid\<close> and returns the entry it
  reads back with a subscript (which raises \<^verbatim>\<open>KeyError\<close> on a missing key).
\<close>

definition UserDb_add ::
  "UserDb \<Rightarrow> pystr \<Rightarrow> pystr \<Rightarrow> pystr \<Rightarrow> (py_error + pystr \<times> pystr) \<times> UserDb" where
  "UserDb_add db authid authrole ticket =
     (let db' = db\<lparr>tickets := (tickets db)(authid \<mapsto> (ticket, authrole))\<rparr>
      in (case tickets db' authid of
            None \<Rightarrow> (Inl KeyError, db')
          | Some entry \<Rightarrow> (Inr entry, db')))"

text \<open>
  \<^verbatim>\<open>get\<close> reads the dictionary with the default \<^verbatim>\<open>(None, None)\<close> and wraps the answer
  in an already fired \<^verbatim>\<open>Deferred\<close>. It assigns nothing.
\<close>

definition UserDb_get :: "UserDb \<Rightarrow> pystr \<Rightarrow> (pystr \<times> pystr) deferred" where
  "UserDb_get db authid =
     defer_succeed (case tickets db authid of None \<Rightarrow> (None, None) | Some entry \<Rightarrow> entry)"

text \<open>
  The session reaches the database through \<^verbatim>\<open>self.factory.userdb\<close>. The factory record
  carries, beside the database, a ghost log of the arguments of every call of \<^verbatim>\<open>get\<close>,
  oldest first, so that the number of lookups a callback makes can be stated.
\<close>

record factory =
  userdb :: UserDb
  get_calls :: "pystr list"

definition factory_userdb_get :: "factory \<Rightarrow> pystr \<Rightarrow> (pystr \<times> pystr) deferred \<times> factory" where
  "factory_userdb_get f authid =
     (UserDb_get (userdb f) authid, f\<lparr>get_calls := get_calls f @ [authid]\<rparr>)"

text \<open>The database that the script's main block builds: two identities.\<close>

definition main_userdb :: UserDb where
  "main_userdb =
     snd (UserDb_add
            (snd (UserDb_add UserDb_init (Some ''peter'') (Some ''user'') (Some ''magic_secret_1'')))
            (Some ''joe'') (Some ''user'') (Some ''magic_secret_2''))"

subsection \<open>Pending authentications and decisions\<close>

record PendingAuth =
  signature :: pystr
  authid :: pystr
  authrole :: pystr
  authmethod :: pystr
  authprovider :: pystr

definition PendingAuth_init :: "pystr \<Rightarrow> pystr \<Rightarrow> pystr \<Rightarrow> pystr \<Rightarrow> pystr \<Rightarrow> PendingAuth" where
  "PendingAuth_init ticket aid arole amethod aprovider =
     \<lparr>signature = ticket, authid = aid, authrole = arole,
      authmethod = amethod, authprovider = aprovider\<rparr>"

text \<open>
  Modelled from the spec: the classes \<^verbatim>\<open>Challenge\<close>, \<^verbatim>\<open>Accept\<close> and \<^verbatim>\<open>Deny\<close> of
  \<^verbatim>\<open>autobahn.wamp.types\<close> are not among the sources. The spec gives them as the tagged
  variant Challenge(method), Accept(authid, authrole, authmethod, authprovider),
  Deny(reason?); each constructor holds the arguments it is called with, and a
  \<^verbatim>\<open>Deny()\<close> built with no argument holds no reason.
\<close>

datatype decision =
  Challenge string
| Accept pystr pystr pystr pystr
| Deny "string option"

text \<open>
  Modelled from the spec: \<^verbatim>\<open>HelloDetails\<close> of \<^verbatim>\<open>autobahn.wamp.types\<close> is not among the
  sources; \<^verbatim>\<open>onHello\<close> reads its attributes \<^verbatim>\<open>authmethods\<close> (\<^verbatim>\<open>None\<close> or a sequence of
  method names) and \<^verbatim>\<open>authid\<close>.
\<close>

record HelloDetails =
  hello_authmethods :: "string list option"
  hello_authid :: pystr

subsection \<open>The router session\<close>

text \<open>
  \<^verbatim>\<open>MyRouterSession\<close> declares no constructor: its only attribute, \<^verbatim>\<open>_pending_auth\<close>,
  comes into being with the first statement of \<^verbatim>\<open>onHello\<close>. Until then the attribute
  does not exist on the instance and reading it raises \<^verbatim>\<open>AttributeError\<close>; afterwards
  it holds \<^verbatim>\<open>None\<close> or a \<^verbatim>\<open>PendingAuth\<close>.
\<close>

datatype 'a attr = Unassigned | Assigned 'a

record MyRouterSession =
  pending_auth :: "PendingAuth option attr"

text \<open>
  The \<^verbatim>\<open>for\<close> loop of \<^verbatim>\<open>onHello\<close> over the offered methods. Its first component is
  \<open>Some r\<close> when the loop leaves the callback with \<open>r\<close> (the \<^verbatim>\<open>returnValue\<close> of the
  challenge, or the failure that \<^verbatim>\<open>yield\<close> re-raises from a failed \<^verbatim>\<open>Deferred\<close>) and
  \<open>None\<close> when the loop runs to its end. A method equal to \<^verbatim>\<open>ticket\<close> whose lookup
  gives a false ticket does not end the loop.
\<close>

fun onHello_for ::
  "MyRouterSession \<Rightarrow> factory \<Rightarrow> pystr \<Rightarrow> string list
   \<Rightarrow> decision deferred option \<times> MyRouterSession \<times> factory" where
  "onHello_for s f aid [] = (None, s, f)"
| "onHello_for s f aid (amethod # rest) =
     (if amethod = ''ticket'' then
        (case factory_userdb_get f aid of
           (Inl e, f') \<Rightarrow> (Some (Inl e), s, f')
         | (Inr (ticket, arole), f') \<Rightarrow>
             if truthy ticket then
               (Some (Inr (Challenge ''ticket'')),
                s\<lparr>pending_auth :=
                    Assigned (Some (PendingAuth_init ticket aid arole (Some amethod) (Some ''userdb'')))\<rparr>,
                f')
             else onHello_for s f' aid rest)
      else onHello_for s f aid rest)"

definition onHello ::
  "MyRouterSession \<Rightarrow> factory \<Rightarrow> pystr \<Rightarrow> HelloDetails
   \<Rightarrow> decision deferred \<times> MyRouterSession \<times> factory" where
  "onHello s f realm details =
     (let s0 = s\<lparr>pending_auth := Assigned None\<rparr> in
      if truthy_list (hello_authmethods details) then
        (case hello_authmethods details of
           None \<Rightarrow> (Inr (Deny None), s0, f)
         | Some ms \<Rightarrow>
             (case onHello_for s0 f (hello_authid details) ms of
                (Some r, s', f') \<Rightarrow> (r, s', f')
              | (None, s', f') \<Rightarrow> (Inr (Deny None), s', f')))
      else (Inr (Deny None), s0, f))"

text \<open>
  \<^verbatim>\<open>onAuthenticate\<close> only reads the session: it returns the session it was given.
\<close>

definition onAuthenticate ::
  "MyRouterSession \<Rightarrow> pystr \<Rightarrow> (string \<times> string) list
   \<Rightarrow> (py_error + decision) \<times> MyRouterSession" where
  "onAuthenticate s sig extra =
     (case pending_auth s of
        Unassigned \<Rightarrow> (Inl AttributeError, s)
      | Assigned None \<Rightarrow> (Inr (Deny None), s)
      | Assigned (Some p) \<Rightarrow>
          if sig = signature p then
            (Inr (Accept (authid p) (authrole p) (authmethod p) (authprovider p)), s)
          else (Inr (Deny None), s))"

section \<open>Properties\<close>

subsection \<open>Auxiliary facts about the method loop and the two callbacks\<close>

lemma onHello_for_no_ticket:
  "''ticket'' \<notin> set ms \<Longrightarrow> onHello_for s f aid ms = (None, s, f)"
  by (induction ms) auto

lemma UserDb_get_absent:
  "tickets db aid = None \<Longrightarrow> UserDb_get db aid = Inr (None, None)"
  by (simp add: UserDb_get_def defer_succeed_def)

lemma onHello_for_cases:
  "onHello_for s f aid ms = (r, s', f') \<Longrightarrow>
     userdb f' = userdb f \<and>
     ((r = None \<and> s' = s) \<or>
      (r = Some (Inr (Challenge ''ticket'')) \<and>
       (\<exists>ticket arole. UserDb_get (userdb f) aid = Inr (ticket, arole) \<and> truthy ticket \<and>
          s' = s\<lparr>pending_auth := Assigned (Some (PendingAuth_init ticket aid arole (Some ''ticket'') (Some ''userdb'')))\<rparr>)))"
proof (induction ms arbitrary: f)
  case Nil
  then show ?case by simp
next
  case (Cons m ms)
  show ?case
  proof (cases "m = ''ticket''")
    case False
    with Cons show ?thesis by simp
  next
    case True
    obtain ticket arole where g: "UserDb_get (userdb f) aid = Inr (ticket, arole)"
      by (metis UserDb_get_def defer_succeed_def surj_pair)
    let ?f1 = "f\<lparr>get_calls := get_calls f @ [aid]\<rparr>"
    show ?thesis
    proof (cases "truthy ticket")
      case True
      with \<open>m = ''ticket''\<close> g Cons.prems show ?thesis
        by (auto simp: factory_userdb_get_def)
    next
      case False
      with \<open>m = ''ticket''\<close> g Cons.prems have "onHello_for s ?f1 aid ms = (r, s', f')"
        by (simp add: factory_userdb_get_def)
      from Cons.IH[OF this] show ?thesis by simp
    qed
  qed
qed

lemma onHello_for_falsy:
  "UserDb_get (userdb f) aid = Inr (ticket, arole) \<Longrightarrow> \<not> truthy ticket \<Longrightarrow>
   \<exists>f'. onHello_for s f aid ms = (None, s, f') \<and> userdb f' = userdb f"
proof (induction ms arbitrary: f)
  case Nil
  then show ?case by simp
next
  case (Cons m ms)
  let ?f1 = "f\<lparr>get_calls := get_calls f @ [aid]\<rparr>"
  from Cons.prems have "UserDb_get (userdb ?f1) aid = Inr (ticket, arole)" by simp
  from Cons.IH[OF this Cons.prems(2)] Cons.IH[OF Cons.prems] Cons.prems
  show ?case by (auto simp: factory_userdb_get_def)
qed

lemma onAuthenticate_assigned:
  "pending_auth s = Assigned po \<Longrightarrow>
   onAuthenticate s sig extra =
     (case po of
        None \<Rightarrow> (Inr (Deny None), s)
      | Some p \<Rightarrow>
          if sig = signature p
          then (Inr (Accept (authid p) (authrole p) (authmethod p) (authprovider p)), s)
          else (Inr (Deny None), s))"
  by (simp add: onAuthenticate_def)

lemma main_userdb_peter:
  "tickets main_userdb (Some ''peter'') = Some (Some ''magic_secret_1'', Some ''user'')"
  by (simp add: main_userdb_def UserDb_add_def UserDb_init_def)

lemma main_userdb_nobody: "tickets main_userdb (Some ''nobody'') = None"
  by (simp add: main_userdb_def UserDb_add_def UserDb_init_def)

lemma onHello_result:
  assumes "onHello s f realm details = (r, s', f')"
  shows "userdb f' = userdb f \<and>
         ((r = Inr (Deny None) \<and> pending_auth s' = Assigned None) \<or>
          (r = Inr (Challenge ''ticket'') \<and>
           (\<exists>ticket arole. UserDb_get (userdb f) (hello_authid details) = Inr (ticket, arole)
              \<and> truthy ticket
              \<and> pending_auth s' = Assigned (Some (PendingAuth_init ticket (hello_authid details)
                   arole (Some ''ticket'') (Some ''userdb''))))))"
proof (cases "truthy_list (hello_authmethods details)")
  case False
  with assms show ?thesis by (auto simp: onHello_def)
next
  case True
  then obtain ms where ms: "hello_authmethods details = Some ms"
    by (auto simp: truthy_list_def split: option.splits)
  obtain q t g where loop:
    "onHello_for (s\<lparr>pending_auth := Assigned None\<rparr>) f (hello_authid details) ms = (q, t, g)"
    by (metis prod_cases3)
  from onHello_for_cases[OF loop] assms True ms loop show ?thesis
    by (auto simp: onHello_def)
qed

lemma onHello_falsy_ticket:
  assumes "UserDb_get (userdb f) (hello_authid details) = Inr (ticket, arole)"
    and "\<not> truthy ticket"
  shows "fst (onHello s f realm details) = Inr (Deny None)
         \<and> fst (snd (onHello s f realm details)) = s\<lparr>pending_auth := Assigned None\<rparr>"
proof (cases "hello_authmethods details")
  case None
  then show ?thesis by (simp add: onHello_def Let_def truthy_list_def)
next
  case (Some ms)
  from onHello_for_falsy [OF assms, of "s\<lparr>pending_auth := Assigned None\<rparr>" ms]
  obtain f' where "onHello_for (s\<lparr>pending_auth := Assigned None\<rparr>) f (hello_authid details) ms
                    = (None, s\<lparr>pending_auth := Assigned None\<rparr>, f')"
    by blast
  with Some show ?thesis by (simp add: onHello_def Let_def truthy_list_def)
qed

subsection \<open>The claims\<close>

text \<open>
  C1, the code at the input where the claim fails. The claim: for every session state,
  \<^verbatim>\<open>onAuthenticate\<close> returns Accept exactly when a pending record is present and the
  signature equals its secret, and in every other case (no pending record, or an unequal
  signature) the result is Deny. On a session whose \<^verbatim>\<open>onHello\<close> has not run yet there
  is no pending record, and the callback does not return Deny: the attribute it reads
  was never assigned and the read raises \<^verbatim>\<open>AttributeError\<close>. (On every session whose
  attribute is assigned the callback does what the claim says: \<open>onAuthenticate_assigned\<close>.)
\<close>


theorem onAuthenticate_before_hello_raises:
  "fst (onAuthenticate \<lparr>pending_auth = Unassigned\<rparr> (Some ''magic_secret_1'') [])
     = Inl AttributeError
   \<and> fst (onAuthenticate \<lparr>pending_auth = Unassigned\<rparr> (Some ''magic_secret_1'') [])
     \<noteq> Inr (Deny None)"
  by (simp add: onAuthenticate_def)

text \<open>
  C2. For every authid that has no entry in the database, \<^verbatim>\<open>onHello\<close> with the offered
  methods \<^verbatim>\<open>["ticket"]\<close> returns Deny, never a Challenge, and leaves no pending
  authentication on the session (it makes the one lookup of that authid).
\<close>


theorem onHello_unknown_authid_denies:
  assumes "tickets (userdb f) aid = None"
    and "hello_authmethods details = Some [''ticket'']"
    and "hello_authid details = aid"
  shows "onHello s f realm details =
           (Inr (Deny None), s\<lparr>pending_auth := Assigned None\<rparr>,
            f\<lparr>get_calls := get_calls f @ [aid]\<rparr>)
         \<and> (\<forall>m. fst (onHello s f realm details) \<noteq> Inr (Challenge m))"
  using assms
  by (simp add: onHello_def truthy_list_def factory_userdb_get_def UserDb_get_absent truthy_def)

theorem onHello_unknown_authid_denies_witness:
  "tickets (userdb \<lparr>userdb = main_userdb, get_calls = []\<rparr>) (Some ''nobody'') = None
   \<and> onHello \<lparr>pending_auth = Unassigned\<rparr> \<lparr>userdb = main_userdb, get_calls = []\<rparr> (Some ''realm1'')
        \<lparr>hello_authmethods = Some [''ticket''], hello_authid = Some ''nobody''\<rparr>
      = (Inr (Deny None), \<lparr>pending_auth = Assigned None\<rparr>,
         \<lparr>userdb = main_userdb, get_calls = [Some ''nobody'']\<rparr>)"
proof -
  have h: "tickets (userdb \<lparr>userdb = main_userdb, get_calls = []\<rparr>) (Some ''nobody'') = None"
    by (simp add: main_userdb_nobody)
  from h onHello_unknown_authid_denies [OF h, of
      "\<lparr>hello_authmethods = Some [''ticket''], hello_authid = Some ''nobody''\<rparr>"
      "\<lparr>pending_auth = Unassigned\<rparr>" "Some ''realm1''"]
  show ?thesis by simp
qed

text \<open>
  C3. With a database that holds the entry \<^verbatim>\<open>peter\<close> with secret \<^verbatim>\<open>magic_secret_1\<close> and
  role \<^verbatim>\<open>user\<close>, \<^verbatim>\<open>onHello\<close> for realm \<^verbatim>\<open>realm1\<close>, methods \<^verbatim>\<open>["ticket"]\<close> and authid
  \<^verbatim>\<open>peter\<close> returns \<^verbatim>\<open>Challenge("ticket")\<close>; on the session it leaves, \<^verbatim>\<open>onAuthenticate\<close>
  with \<^verbatim>\<open>magic_secret_1\<close> returns Accept for authid \<^verbatim>\<open>peter\<close>, role \<^verbatim>\<open>user\<close>, method
  \<^verbatim>\<open>ticket\<close>, provider \<^verbatim>\<open>userdb\<close>, and with \<^verbatim>\<open>wrong_guess\<close> it returns Deny.
\<close>


theorem scenario_peter:
  assumes "tickets (userdb f) (Some ''peter'') = Some (Some ''magic_secret_1'', Some ''user'')"
  shows "\<exists>s' f'.
           onHello s f (Some ''realm1'')
               \<lparr>hello_authmethods = Some [''ticket''], hello_authid = Some ''peter''\<rparr>
             = (Inr (Challenge ''ticket''), s', f')
           \<and> fst (onAuthenticate s' (Some ''magic_secret_1'') [])
             = Inr (Accept (Some ''peter'') (Some ''user'') (Some ''ticket'') (Some ''userdb''))
           \<and> fst (onAuthenticate s' (Some ''wrong_guess'') []) = Inr (Deny None)"
  using assms
  by (simp add: onHello_def truthy_list_def factory_userdb_get_def UserDb_get_def
      defer_succeed_def truthy_def PendingAuth_init_def onAuthenticate_def)

theorem scenario_peter_witness:
  "tickets (userdb \<lparr>userdb = main_userdb, get_calls = []\<rparr>) (Some ''peter'')
     = Some (Some ''magic_secret_1'', Some ''user'')
   \<and> (\<exists>s' f'.
         onHello \<lparr>pending_auth = Unassigned\<rparr> \<lparr>userdb = main_userdb, get_calls = []\<rparr> (Some ''realm1'')
             \<lparr>hello_authmethods = Some [''ticket''], hello_authid = Some ''peter''\<rparr>
           = (Inr (Challenge ''ticket''), s', f')
         \<and> fst (onAuthenticate s' (Some ''magic_secret_1'') [])
           = Inr (Accept (Some ''peter'') (Some ''user'') (Some ''ticket'') (Some ''userdb''))
         \<and> fst (onAuthenticate s' (Some ''wrong_guess'') []) = Inr (Deny None))"
proof -
  have h: "tickets (userdb \<lparr>userdb = main_userdb, get_calls = []\<rparr>) (Some ''peter'')
             = Some (Some ''magic_secret_1'', Some ''user'')"
    by (simp add: main_userdb_peter)
  from h scenario_peter [OF h, of "\<lparr>pending_auth = Unassigned\<rparr>"]
  show ?thesis by blast
qed

text \<open>
  C4 as stated fails: after the Challenge for \<^verbatim>\<open>peter\<close>, two calls of \<^verbatim>\<open>onAuthenticate\<close>
  with the right secret both return Accept. The callback assigns nothing, so the
  pending record is still there for the second call.
\<close>


theorem second_authenticate_accepts_again:
  "fst (onHello \<lparr>pending_auth = Unassigned\<rparr> \<lparr>userdb = main_userdb, get_calls = []\<rparr>
          (Some ''realm1'') \<lparr>hello_authmethods = Some [''ticket''], hello_authid = Some ''peter''\<rparr>)
     = Inr (Challenge ''ticket'')
   \<and> fst (onAuthenticate
            (snd (onAuthenticate
                    (fst (snd (onHello \<lparr>pending_auth = Unassigned\<rparr>
                                 \<lparr>userdb = main_userdb, get_calls = []\<rparr> (Some ''realm1'')
                                 \<lparr>hello_authmethods = Some [''ticket''],
                                  hello_authid = Some ''peter''\<rparr>)))
                    (Some ''magic_secret_1'') []))
            (Some ''magic_secret_1'') [])
     = Inr (Accept (Some ''peter'') (Some ''user'') (Some ''ticket'') (Some ''userdb''))
   \<and> fst (onAuthenticate
            (snd (onAuthenticate
                    (fst (snd (onHello \<lparr>pending_auth = Unassigned\<rparr>
                                 \<lparr>userdb = main_userdb, get_calls = []\<rparr> (Some ''realm1'')
                                 \<lparr>hello_authmethods = Some [''ticket''],
                                  hello_authid = Some ''peter''\<rparr>)))
                    (Some ''magic_secret_1'') []))
            (Some ''magic_secret_1'') [])
     \<noteq> Inr (Deny None)"
  by (simp add: onHello_def truthy_list_def factory_userdb_get_def UserDb_get_def
      defer_succeed_def truthy_def PendingAuth_init_def onAuthenticate_def main_userdb_peter)

text \<open>
  C4, amended. After one Challenge, two calls of \<^verbatim>\<open>onAuthenticate\<close> in a row: the first
  call leaves the session as it found it (the pending record is not consumed), and each
  of the two calls is decided by its own signature alone: Accept with the pending
  record's authid, role, method and provider when the signature equals the pending
  secret, Deny otherwise. So the second call returns Deny exactly when the second
  signature differs from the pending secret.
\<close>


theorem authenticate_twice_after_challenge:
  assumes "onHello s f realm details = (Inr (Challenge m), s1, f1)"
  shows "\<exists>p. pending_auth s1 = Assigned (Some p)
           \<and> snd (onAuthenticate s1 sig1 extra1) = s1
           \<and> fst (onAuthenticate s1 sig1 extra1) =
               (if sig1 = signature p
                then Inr (Accept (authid p) (authrole p) (authmethod p) (authprovider p))
                else Inr (Deny None))
           \<and> fst (onAuthenticate (snd (onAuthenticate s1 sig1 extra1)) sig2 extra2) =
               (if sig2 = signature p
                then Inr (Accept (authid p) (authrole p) (authmethod p) (authprovider p))
                else Inr (Deny None))"
proof -
  from onHello_result[OF assms] obtain p where p: "pending_auth s1 = Assigned (Some p)"
    by auto
  have one: "onAuthenticate s1 sg ex =
               (if sg = signature p
                then (Inr (Accept (authid p) (authrole p) (authmethod p) (authprovider p)), s1)
                else (Inr (Deny None), s1))" for sg ex
    using onAuthenticate_assigned[OF p] by simp
  have "snd (onAuthenticate s1 sig1 extra1) = s1"
    by (simp add: one)
  with p one show ?thesis by auto
qed

theorem authenticate_twice_after_challenge_witness:
  "onHello \<lparr>pending_auth = Unassigned\<rparr> \<lparr>userdb = main_userdb, get_calls = []\<rparr> (Some ''realm1'')
       \<lparr>hello_authmethods = Some [''ticket''], hello_authid = Some ''peter''\<rparr>
     = (Inr (Challenge ''ticket''),
        \<lparr>pending_auth = Assigned (Some (PendingAuth_init (Some ''magic_secret_1'') (Some ''peter'')
            (Some ''user'') (Some ''ticket'') (Some ''userdb'')))\<rparr>,
        \<lparr>userdb = main_userdb, get_calls = [Some ''peter'']\<rparr>)
   \<and> fst (onAuthenticate
            (snd (onAuthenticate
               \<lparr>pending_auth = Assigned (Some (PendingAuth_init (Some ''magic_secret_1'')
                   (Some ''peter'') (Some ''user'') (Some ''ticket'') (Some ''userdb'')))\<rparr>
               (Some ''wrong_guess'') []))
            (Some ''magic_secret_1'') [])
     = Inr (Accept (Some ''peter'') (Some ''user'') (Some ''ticket'') (Some ''userdb''))"
proof -
  let ?s1 = "\<lparr>pending_auth = Assigned (Some (PendingAuth_init (Some ''magic_secret_1'')
                (Some ''peter'') (Some ''user'') (Some ''ticket'') (Some ''userdb'')))\<rparr>"
  have h: "onHello \<lparr>pending_auth = Unassigned\<rparr> \<lparr>userdb = main_userdb, get_calls = []\<rparr>
             (Some ''realm1'') \<lparr>hello_authmethods = Some [''ticket''], hello_authid = Some ''peter''\<rparr>
           = (Inr (Challenge ''ticket''), ?s1, \<lparr>userdb = main_userdb, get_calls = [Some ''peter'']\<rparr>)"
    by (simp add: onHello_def truthy_list_def factory_userdb_get_def UserDb_get_def
        defer_succeed_def truthy_def main_userdb_peter)
  from authenticate_twice_after_challenge [OF h, of "Some ''wrong_guess''" "[]" "Some ''magic_secret_1''" "[]"]
  obtain p where "pending_auth ?s1 = Assigned (Some p)"
    and "fst (onAuthenticate (snd (onAuthenticate ?s1 (Some ''wrong_guess'') [])) (Some ''magic_secret_1'') [])
         = (if Some ''magic_secret_1'' = signature p
            then Inr (Accept (authid p) (authrole p) (authmethod p) (authprovider p))
            else Inr (Deny None))"
    by blast
  then have "fst (onAuthenticate (snd (onAuthenticate ?s1 (Some ''wrong_guess'') [])) (Some ''magic_secret_1'') [])
         = Inr (Accept (Some ''peter'') (Some ''user'') (Some ''ticket'') (Some ''userdb''))"
    by (auto simp: PendingAuth_init_def)
  with h show ?thesis by simp
qed

text \<open>
  C5. When the offered methods are missing, empty or hold no method equal to
  \<^verbatim>\<open>ticket\<close>, \<^verbatim>\<open>onHello\<close> returns Deny and hands the factory back as it was: the
  database is unchanged and the log of \<^verbatim>\<open>get\<close> calls has not grown, so no lookup was
  made.
\<close>


theorem onHello_without_ticket_method:
  assumes "hello_authmethods details = None
           \<or> (\<exists>ms. hello_authmethods details = Some ms \<and> ''ticket'' \<notin> set ms)"
  shows "onHello s f realm details = (Inr (Deny None), s\<lparr>pending_auth := Assigned None\<rparr>, f)"
proof -
  from assms consider (none) "hello_authmethods details = None"
    | (some) ms where "hello_authmethods details = Some ms" and "''ticket'' \<notin> set ms"
    by auto
  then show ?thesis
  proof cases
    case none
    then show ?thesis by (simp add: onHello_def Let_def truthy_list_def)
  next
    case some
    then show ?thesis by (simp add: onHello_def Let_def truthy_list_def onHello_for_no_ticket)
  qed
qed

theorem onHello_without_ticket_method_witness:
  "(hello_authmethods \<lparr>hello_authmethods = Some [''wampcra'', ''anonymous''], hello_authid = Some ''peter''\<rparr> = None
    \<or> (\<exists>ms. hello_authmethods \<lparr>hello_authmethods = Some [''wampcra'', ''anonymous''], hello_authid = Some ''peter''\<rparr> = Some ms
          \<and> ''ticket'' \<notin> set ms))
   \<and> onHello \<lparr>pending_auth = Unassigned\<rparr> \<lparr>userdb = main_userdb, get_calls = []\<rparr> (Some ''realm1'')
        \<lparr>hello_authmethods = Some [''wampcra'', ''anonymous''], hello_authid = Some ''peter''\<rparr>
     = (Inr (Deny None), \<lparr>pending_auth = Assigned None\<rparr>, \<lparr>userdb = main_userdb, get_calls = []\<rparr>)"
proof -
  let ?d = "\<lparr>hello_authmethods = Some [''wampcra'', ''anonymous''], hello_authid = Some ''peter''\<rparr>"
  have h: "hello_authmethods ?d = None
           \<or> (\<exists>ms. hello_authmethods ?d = Some ms \<and> ''ticket'' \<notin> set ms)"
    by simp
  from h onHello_without_ticket_method [OF h, of "\<lparr>pending_auth = Unassigned\<rparr>"
      "\<lparr>userdb = main_userdb, get_calls = []\<rparr>" "Some ''realm1''"]
  show ?thesis by simp
qed

text \<open>
  C6. For every database, after \<^verbatim>\<open>add(authid, authrole, ticket)\<close> a lookup of that authid
  gives exactly the pair (ticket, authrole) that was added; a second \<^verbatim>\<open>add\<close> for the same
  authid raises nothing and overwrites the entry, so the lookup gives the pair written
  last; the entries of every other authid are as they were.
\<close>


theorem UserDb_add_then_get:
  "fst (UserDb_add db aid arole ticket) = Inr (ticket, arole)
   \<and> UserDb_get (snd (UserDb_add db aid arole ticket)) aid = Inr (ticket, arole)
   \<and> fst (UserDb_add (snd (UserDb_add db aid arole ticket)) aid arole' ticket')
       = Inr (ticket', arole')
   \<and> UserDb_get (snd (UserDb_add (snd (UserDb_add db aid arole ticket)) aid arole' ticket')) aid
       = Inr (ticket', arole')
   \<and> (other \<noteq> aid \<longrightarrow>
        tickets (snd (UserDb_add db aid arole ticket)) other = tickets db other
        \<and> UserDb_get (snd (UserDb_add db aid arole ticket)) other = UserDb_get db other)"
  by (simp add: UserDb_add_def UserDb_get_def defer_succeed_def)

theorem UserDb_add_then_get_witness:
  "Some ''peter'' \<noteq> Some ''joe''
   \<and> UserDb_get main_userdb (Some ''joe'') = Inr (Some ''magic_secret_2'', Some ''user'')
   \<and> tickets main_userdb (Some ''peter'') =
       tickets (snd (UserDb_add UserDb_init (Some ''peter'') (Some ''user'') (Some ''magic_secret_1'')))
         (Some ''peter'')
   \<and> UserDb_get main_userdb (Some ''peter'') =
       UserDb_get (snd (UserDb_add UserDb_init (Some ''peter'') (Some ''user'') (Some ''magic_secret_1'')))
         (Some ''peter'')"
proof -
  have h: "Some ''peter'' \<noteq> Some ''joe''"
    by simp
  from h UserDb_add_then_get [of
      "snd (UserDb_add UserDb_init (Some ''peter'') (Some ''user'') (Some ''magic_secret_1''))"
      "Some ''joe''" "Some ''user''" "Some ''magic_secret_2''" _ _ "Some ''peter''"]
  show ?thesis by (simp add: main_userdb_def)
qed



text \<open>
  C8. The Deny that \<^verbatim>\<open>onHello\<close> returns for an authid unknown to the database and the
  Deny that \<^verbatim>\<open>onAuthenticate\<close> returns for a signature that differs from the pending
  secret are the same value: a Deny built with no reason.
\<close>


theorem deny_unknown_identity_same_as_wrong_secret:
  assumes "tickets (userdb f) (hello_authid details) = None"
    and "pending_auth s2 = Assigned (Some p)"
    and "sig \<noteq> signature p"
  shows "fst (onHello s f realm details) = Inr (Deny None)
         \<and> fst (onAuthenticate s2 sig extra) = Inr (Deny None)
         \<and> (\<exists>v. fst (onHello s f realm details) = Inr v \<and> fst (onAuthenticate s2 sig extra) = Inr v)"
proof -
  have a: "fst (onHello s f realm details) = Inr (Deny None)"
    using onHello_falsy_ticket [OF UserDb_get_absent [OF assms(1)], of s realm]
    by (simp add: truthy_def)
  have b: "fst (onAuthenticate s2 sig extra) = Inr (Deny None)"
    using assms(3) by (simp add: onAuthenticate_assigned [OF assms(2)])
  from a b show ?thesis by simp
qed

theorem deny_unknown_identity_same_as_wrong_secret_witness:
  "fst (onHello \<lparr>pending_auth = Unassigned\<rparr> \<lparr>userdb = main_userdb, get_calls = []\<rparr> (Some ''realm1'')
          \<lparr>hello_authmethods = Some [''ticket''], hello_authid = Some ''nobody''\<rparr>)
     = Inr (Deny None)
   \<and> fst (onAuthenticate
            \<lparr>pending_auth = Assigned (Some (PendingAuth_init (Some ''magic_secret_1'')
                (Some ''peter'') (Some ''user'') (Some ''ticket'') (Some ''userdb'')))\<rparr>
            (Some ''wrong_guess'') [])
     = Inr (Deny None)"
proof -
  let ?f = "\<lparr>userdb = main_userdb, get_calls = []\<rparr>"
  let ?d = "\<lparr>hello_authmethods = Some [''ticket''], hello_authid = Some ''nobody''\<rparr>"
  let ?p = "PendingAuth_init (Some ''magic_secret_1'') (Some ''peter'') (Some ''user'')
              (Some ''ticket'') (Some ''userdb'')"
  let ?s2 = "\<lparr>pending_auth = Assigned (Some ?p)\<rparr>"
  have h1: "tickets (userdb ?f) (hello_authid ?d) = None"
    by (simp add: main_userdb_nobody)
  have h2: "pending_auth ?s2 = Assigned (Some ?p)"
    by simp
  have h3: "Some ''wrong_guess'' \<noteq> signature ?p"
    by (simp add: PendingAuth_init_def)
  from deny_unknown_identity_same_as_wrong_secret [OF h1 h2 h3, of "\<lparr>pending_auth = Unassigned\<rparr>"
      "Some ''realm1''" "[]"]
  show ?thesis by simp
qed

text \<open>
  C9. For every authid that was added with the empty string as its secret, \<^verbatim>\<open>onHello\<close>
  with the offered methods \<^verbatim>\<open>["ticket"]\<close> returns Deny and leaves no pending
  authentication, although the entry is present in the database: the decision, the
  session and the lookups made are those of the same hello on a database from which the
  authid is absent. The branch tests the truth value of the stored secret.
\<close>


theorem onHello_empty_secret_denies:
  assumes "userdb f = snd (UserDb_add db aid arole (Some ''''))"
    and "hello_authmethods details = Some [''ticket'']"
    and "hello_authid details = aid"
  shows "tickets (userdb f) aid = Some (Some '''', arole)
         \<and> onHello s f realm details =
             (Inr (Deny None), s\<lparr>pending_auth := Assigned None\<rparr>,
              f\<lparr>get_calls := get_calls f @ [aid]\<rparr>)
         \<and> onHello s (f\<lparr>userdb := db\<lparr>tickets := (tickets db)(aid := None)\<rparr>\<rparr>) realm details =
             (Inr (Deny None), s\<lparr>pending_auth := Assigned None\<rparr>,
              f\<lparr>userdb := db\<lparr>tickets := (tickets db)(aid := None)\<rparr>,
                get_calls := get_calls f @ [aid]\<rparr>)"
proof -
  have present: "tickets (userdb f) aid = Some (Some '''', arole)"
    using assms(1) by (simp add: UserDb_add_def)
  then have "UserDb_get (userdb f) aid = Inr (Some '''', arole)"
    by (simp add: UserDb_get_def defer_succeed_def)
  with assms(2,3) have stored:
    "onHello s f realm details =
       (Inr (Deny None), s\<lparr>pending_auth := Assigned None\<rparr>, f\<lparr>get_calls := get_calls f @ [aid]\<rparr>)"
    by (simp add: onHello_def Let_def truthy_list_def factory_userdb_get_def truthy_def)
  let ?g = "f\<lparr>userdb := db\<lparr>tickets := (tickets db)(aid := None)\<rparr>\<rparr>"
  have "UserDb_get (userdb ?g) aid = Inr (None, None)"
    by (simp add: UserDb_get_absent)
  with assms(2,3) have absent:
    "onHello s ?g realm details =
       (Inr (Deny None), s\<lparr>pending_auth := Assigned None\<rparr>, ?g\<lparr>get_calls := get_calls ?g @ [aid]\<rparr>)"
    by (simp add: onHello_def Let_def truthy_list_def factory_userdb_get_def truthy_def)
  from present stored absent show ?thesis by simp
qed

theorem onHello_empty_secret_denies_witness:
  "onHello \<lparr>pending_auth = Unassigned\<rparr>
       \<lparr>userdb = snd (UserDb_add main_userdb (Some ''eve'') (Some ''user'') (Some '''')),
        get_calls = []\<rparr>
       (Some ''realm1'') \<lparr>hello_authmethods = Some [''ticket''], hello_authid = Some ''eve''\<rparr>
     = (Inr (Deny None), \<lparr>pending_auth = Assigned None\<rparr>,
        \<lparr>userdb = snd (UserDb_add main_userdb (Some ''eve'') (Some ''user'') (Some '''')),
         get_calls = [Some ''eve'']\<rparr>)"
proof -
  let ?f = "\<lparr>userdb = snd (UserDb_add main_userdb (Some ''eve'') (Some ''user'') (Some '''')),
             get_calls = []\<rparr>"
  let ?d = "\<lparr>hello_authmethods = Some [''ticket''], hello_authid = Some ''eve''\<rparr>"
  have h1: "userdb ?f = snd (UserDb_add main_userdb (Some ''eve'') (Some ''user'') (Some ''''))"
    by simp
  have h2: "hello_authmethods ?d = Some [''ticket'']"
    by simp
  have h3: "hello_authid ?d = Some ''eve''"
    by simp
  from onHello_empty_secret_denies [OF h1 h2 h3, of "\<lparr>pending_auth = Unassigned\<rparr>" "Some ''realm1''"]
  show ?thesis by simp
qed

text \<open>
  C10. \<^verbatim>\<open>onHello\<close> begins by setting the pending authentication of the session to
  \<^verbatim>\<open>None\<close>: what it returns does not depend on the pending authentication the session
  held before, the session it leaves holds \<^verbatim>\<open>None\<close> or one pending record, and after
  any hello that does not return a Challenge the session holds \<^verbatim>\<open>None\<close> and
  \<^verbatim>\<open>onAuthenticate\<close> returns Deny for every signature.
\<close>


theorem onHello_resets_pending_first:
  "onHello (s\<lparr>pending_auth := old\<rparr>) f realm details = onHello s f realm details
   \<and> (\<exists>po. pending_auth (fst (snd (onHello s f realm details))) = Assigned po)
   \<and> ((\<forall>m. fst (onHello s f realm details) \<noteq> Inr (Challenge m)) \<longrightarrow>
        pending_auth (fst (snd (onHello s f realm details))) = Assigned None
        \<and> fst (onAuthenticate (fst (snd (onHello s f realm details))) sig extra) = Inr (Deny None))"
proof -
  obtain r s' f' where h: "onHello s f realm details = (r, s', f')"
    by (metis prod_cases3)
  have indep: "onHello (s\<lparr>pending_auth := old\<rparr>) f realm details = onHello s f realm details"
    by (simp add: onHello_def)
  from onHello_result [OF h]
  have shape: "(r = Inr (Deny None) \<and> pending_auth s' = Assigned None)
               \<or> (r = Inr (Challenge ''ticket'') \<and> (\<exists>p. pending_auth s' = Assigned (Some p)))"
    by auto
  then have assigned: "\<exists>po. pending_auth s' = Assigned po"
    by auto
  have deny: "pending_auth s' = Assigned None \<and> fst (onAuthenticate s' sig extra) = Inr (Deny None)"
    if "\<forall>m. r \<noteq> Inr (Challenge m)"
  proof -
    from shape that have n: "pending_auth s' = Assigned None" by auto
    then show ?thesis by (simp add: onAuthenticate_assigned [OF n])
  qed
  from indep assigned deny h show ?thesis by simp
qed

theorem onHello_resets_pending_first_witness:
  "(\<forall>m. fst (onHello \<lparr>pending_auth = Unassigned\<rparr> \<lparr>userdb = main_userdb, get_calls = []\<rparr>
               (Some ''realm1'')
               \<lparr>hello_authmethods = Some [''ticket''], hello_authid = Some ''nobody''\<rparr>)
         \<noteq> Inr (Challenge m))
   \<and> onHello \<lparr>pending_auth = Assigned (Some (PendingAuth_init (Some ''magic_secret_1'')
                  (Some ''peter'') (Some ''user'') (Some ''ticket'') (Some ''userdb'')))\<rparr>
        \<lparr>userdb = main_userdb, get_calls = []\<rparr> (Some ''realm1'')
        \<lparr>hello_authmethods = Some [''ticket''], hello_authid = Some ''nobody''\<rparr>
     = onHello \<lparr>pending_auth = Unassigned\<rparr> \<lparr>userdb = main_userdb, get_calls = []\<rparr>
         (Some ''realm1'') \<lparr>hello_authmethods = Some [''ticket''], hello_authid = Some ''nobody''\<rparr>
   \<and> fst (onAuthenticate
            (fst (snd (onHello \<lparr>pending_auth = Unassigned\<rparr> \<lparr>userdb = main_userdb, get_calls = []\<rparr>
                         (Some ''realm1'')
                         \<lparr>hello_authmethods = Some [''ticket''], hello_authid = Some ''nobody''\<rparr>)))
            (Some ''magic_secret_1'') [])
     = Inr (Deny None)"
proof -
  let ?s = "\<lparr>pending_auth = Unassigned\<rparr>"
  let ?f = "\<lparr>userdb = main_userdb, get_calls = []\<rparr>"
  let ?d = "\<lparr>hello_authmethods = Some [''ticket''], hello_authid = Some ''nobody''\<rparr>"
  have ev: "onHello ?s ?f (Some ''realm1'') ?d
              = (Inr (Deny None), \<lparr>pending_auth = Assigned None\<rparr>,
                 \<lparr>userdb = main_userdb, get_calls = [Some ''nobody'']\<rparr>)"
    by (simp add: onHello_def Let_def truthy_list_def factory_userdb_get_def UserDb_get_def
        defer_succeed_def truthy_def main_userdb_nobody)
  have h: "\<forall>m. fst (onHello ?s ?f (Some ''realm1'') ?d) \<noteq> Inr (Challenge m)"
    by (simp add: ev)
  from h onHello_resets_pending_first [where s = ?s and f = ?f and realm = "Some ''realm1''"
      and details = ?d and sig = "Some ''magic_secret_1''" and extra = "[]"
      and old = "Assigned (Some (PendingAuth_init (Some ''magic_secret_1'') (Some ''peter'')
         (Some ''user'') (Some ''ticket'') (Some ''userdb'')))"]
  show ?thesis by simp
qed

end
